theory Spec2Isabelle
  imports Main
begin

section \<open>The SharedSlashCommand mixin of the builders package\<close>

text \<open>
  The development embeds
  \<^verbatim>\<open>packages/builders/src/interactions/slashCommands/mixins/SharedSlashCommand.ts\<close>:
  the fields of the class, its six setters and \<^verbatim>\<open>toJSON\<close>.

  The class is dynamically typed at run time: a setter receives whatever the caller
  passes, and the validators decide. Values are therefore JavaScript values, fields
  hold such values, and a method is a function from the descriptor (\<^verbatim>\<open>this\<close>) to an
  outcome (a thrown error or a returned value) together with the descriptor after the call.
\<close>

subsection \<open>Values and errors\<close>

text \<open>
  JavaScript values as far as the class handles them. \<open>JNumber\<close> carries the
  integer-valued numbers (the enum members and permission literals); \<open>JObject\<close> is a
  plain object as its list of own entries.
\<close>

datatype jsval =
    JUndefined
  | JNull
  | JBoolean bool
  | JNumber int
  | JBigInt int
  | JString string
  | JArray "jsval list"
  | JObject "(string \<times> jsval) list"

text \<open>
  The two error kinds of the builder. A validation error names the rule that failed and
  carries the offending value; a shape error is raised for a malformed rest-or-array
  argument list.
\<close>

datatype error =
    ValidationError string jsval
  | ShapeError

text \<open>
  The member of \<^verbatim>\<open>ApplicationCommandType\<close> (package discord-api-types) that the source
  writes into the document, beside the other members of that enum.
\<close>

datatype ApplicationCommandType = ChatInput | User | Message

subsection \<open>The class and the document it serializes to\<close>

text \<open>
  The fields of \<^verbatim>\<open>SharedSlashCommand\<close>, in the order of the class body. \<open>'o\<close> is the type
  of the elements of \<^verbatim>\<open>options\<close>: objects with a \<^verbatim>\<open>toJSON()\<close> method of their own.
\<close>

record 'o SharedSlashCommand =
  name :: jsval
  name_localizations :: jsval
  description :: jsval
  description_localizations :: jsval
  options :: "'o list"
  contexts :: jsval
  default_permission :: jsval
  default_member_permissions :: jsval
  dm_permission :: jsval
  integration_types :: jsval
  nsfw :: jsval

text \<open>
  The object literal that \<^verbatim>\<open>toJSON\<close> returns: the own fields of \<^verbatim>\<open>this\<close> and the
  field \<^verbatim>\<open>type\<close>. Its \<^verbatim>\<open>options\<close> are the serialized options, of type \<open>'j\<close>.
\<close>

record 'j RESTPostAPIChatInputApplicationCommandsJSONBody = "'j SharedSlashCommand" +
  type :: ApplicationCommandType

text \<open>A fresh instance: the field initializers of the class body.\<close>

definition new_SharedSlashCommand :: "'o SharedSlashCommand" where
  "new_SharedSlashCommand =
     \<lparr> name = JUndefined,
       name_localizations = JUndefined,
       description = JUndefined,
       description_localizations = JUndefined,
       options = [],
       contexts = JUndefined,
       default_permission = JUndefined,
       default_member_permissions = JUndefined,
       dm_permission = JUndefined,
       integration_types = JUndefined,
       nsfw = JUndefined \<rparr>"

subsection \<open>The imported helpers\<close>

text \<open>
  \<^verbatim>\<open>Assertions.js\<close> and \<^verbatim>\<open>normalizeArray.js\<close> are other modules of the package, which
  the class only calls. The methods take them as a parameter: one function per
  imported symbol, each pure, each either returning a value or throwing.
  \<^verbatim>\<open>contextsPredicate.parse\<close>, \<^verbatim>\<open>integrationTypesPredicate.parse\<close> and
  \<^verbatim>\<open>validateDefaultMemberPermissions\<close> return the value that is stored; the other
  validators only assert.
\<close>

record 'o rules =
  normalizeArray :: "jsval list \<Rightarrow> error + jsval list"
  contextsPredicate_parse :: "jsval \<Rightarrow> error + jsval"
  integrationTypesPredicate_parse :: "jsval \<Rightarrow> error + jsval"
  validateDMPermission :: "jsval \<Rightarrow> error + unit"
  validateDefaultMemberPermissions :: "jsval \<Rightarrow> error + jsval"
  validateDefaultPermission :: "jsval \<Rightarrow> error + unit"
  validateLocalizationMap :: "jsval \<Rightarrow> error + unit"
  validateNSFW :: "jsval \<Rightarrow> error + unit"
  validateRequiredParameters :: "jsval \<Rightarrow> jsval \<Rightarrow> 'o list \<Rightarrow> error + unit"

subsection \<open>Methods: statements in sequence, with exceptions\<close>

text \<open>
  A method body is a function from \<^verbatim>\<open>this\<close> to the outcome and \<^verbatim>\<open>this\<close> afterwards.
  \<open>call\<close> evaluates an expression that may throw and does not write; \<open>Reflect_set\<close>
  is the reflective write \<^verbatim>\<open>Reflect.set(this, field, value)\<close>; \<open>andThen\<close> runs the next
  statement unless the previous one threw.
\<close>

type_synonym ('s, 'a) js_method = "'s \<Rightarrow> (error + 'a) \<times> 's"

definition call :: "error + 'a \<Rightarrow> ('s, 'a) js_method" where
  "call r = (\<lambda>this. (r, this))"

definition Reflect_set :: "('s \<Rightarrow> 's) \<Rightarrow> ('s, unit) js_method" where
  "Reflect_set write = (\<lambda>this. (Inr (), write this))"

definition return_value :: "'a \<Rightarrow> ('s, 'a) js_method" where
  "return_value x = (\<lambda>this. (Inr x, this))"

definition andThen :: "('s, 'a) js_method \<Rightarrow> ('a \<Rightarrow> ('s, 'b) js_method) \<Rightarrow> ('s, 'b) js_method" where
  "andThen m f =
     (\<lambda>this. case m this of
        (Inl e, this') \<Rightarrow> (Inl e, this')
      | (Inr x, this') \<Rightarrow> f x this')"

text \<open>
  A parameter with a default (\<^verbatim>\<open>nsfw = true\<close>): the default is taken when the argument
  is omitted (\<open>None\<close>) and when it is \<^verbatim>\<open>undefined\<close>.
\<close>

definition defaultParam :: "jsval option \<Rightarrow> jsval \<Rightarrow> jsval" where
  "defaultParam arg dflt =
     (case arg of None \<Rightarrow> dflt | Some JUndefined \<Rightarrow> dflt | Some v \<Rightarrow> v)"

text \<open>
  \<^verbatim>\<open>xs.map(f)\<close> with an \<open>f\<close> that may throw: the elements are visited from the left and
  the first throw ends the traversal.
\<close>

fun mapThrowing :: "('a \<Rightarrow> error + 'b) \<Rightarrow> 'a list \<Rightarrow> error + 'b list" where
  "mapThrowing f [] = Inr []"
| "mapThrowing f (x # xs) =
     (case f x of
        Inl e \<Rightarrow> Inl e
      | Inr y \<Rightarrow> (case mapThrowing f xs of Inl e \<Rightarrow> Inl e | Inr ys \<Rightarrow> Inr (y # ys)))"

subsection \<open>The setters\<close>

text \<open>
  Every setter returns \<^verbatim>\<open>this\<close>; the descriptor after the call is the second component
  of the outcome, so the returned value is \<open>()\<close>.
\<close>

definition setContexts ::
  "'o rules \<Rightarrow> jsval list \<Rightarrow> ('o SharedSlashCommand, unit) js_method" where
  "setContexts R contexts' =
     andThen (call (normalizeArray R contexts')) (\<lambda>arr.
     andThen (call (contextsPredicate_parse R (JArray arr))) (\<lambda>parsed.
     andThen (Reflect_set (\<lambda>this. this\<lparr>contexts := parsed\<rparr>)) (\<lambda>_.
     return_value ())))"

definition setIntegrationTypes ::
  "'o rules \<Rightarrow> jsval list \<Rightarrow> ('o SharedSlashCommand, unit) js_method" where
  "setIntegrationTypes R integrationTypes =
     andThen (call (normalizeArray R integrationTypes)) (\<lambda>arr.
     andThen (call (integrationTypesPredicate_parse R (JArray arr))) (\<lambda>parsed.
     andThen (Reflect_set (\<lambda>this. this\<lparr>integration_types := parsed\<rparr>)) (\<lambda>_.
     return_value ())))"

definition setDefaultPermission ::
  "'o rules \<Rightarrow> jsval \<Rightarrow> ('o SharedSlashCommand, unit) js_method" where
  "setDefaultPermission R v =
     andThen (call (validateDefaultPermission R v)) (\<lambda>_.
     andThen (Reflect_set (\<lambda>this. this\<lparr>default_permission := v\<rparr>)) (\<lambda>_.
     return_value ()))"

definition setDefaultMemberPermissions ::
  "'o rules \<Rightarrow> jsval \<Rightarrow> ('o SharedSlashCommand, unit) js_method" where
  "setDefaultMemberPermissions R permissions =
     andThen (call (validateDefaultMemberPermissions R permissions)) (\<lambda>permissionValue.
     andThen (Reflect_set (\<lambda>this. this\<lparr>default_member_permissions := permissionValue\<rparr>)) (\<lambda>_.
     return_value ()))"

definition setDMPermission ::
  "'o rules \<Rightarrow> jsval \<Rightarrow> ('o SharedSlashCommand, unit) js_method" where
  "setDMPermission R enabled =
     andThen (call (validateDMPermission R enabled)) (\<lambda>_.
     andThen (Reflect_set (\<lambda>this. this\<lparr>dm_permission := enabled\<rparr>)) (\<lambda>_.
     return_value ()))"

definition setNSFW ::
  "'o rules \<Rightarrow> jsval option \<Rightarrow> ('o SharedSlashCommand, unit) js_method" where
  "setNSFW R arg =
     (let nsfw' = defaultParam arg (JBoolean True) in
      andThen (call (validateNSFW R nsfw')) (\<lambda>_.
      andThen (Reflect_set (\<lambda>this. this\<lparr>nsfw := nsfw'\<rparr>)) (\<lambda>_.
      return_value ())))"

subsection \<open>Serialization\<close>

text \<open>
  \<open>option_toJSON\<close> is the \<^verbatim>\<open>toJSON()\<close> method of the elements of \<^verbatim>\<open>options\<close>, which the
  class only calls. The object literal spreads \<^verbatim>\<open>this\<close> and then sets \<^verbatim>\<open>type\<close> and
  \<^verbatim>\<open>options\<close>.
\<close>

definition toJSON ::
  "'o rules \<Rightarrow> ('o \<Rightarrow> error + 'j) \<Rightarrow>
   ('o SharedSlashCommand, 'j RESTPostAPIChatInputApplicationCommandsJSONBody) js_method" where
  "toJSON R option_toJSON =
     (\<lambda>this.
       (andThen (call (validateRequiredParameters R (name this) (description this) (options this))) (\<lambda>_.
        andThen (call (validateLocalizationMap R (name_localizations this))) (\<lambda>_.
        andThen (call (validateLocalizationMap R (description_localizations this))) (\<lambda>_.
        andThen (call (mapThrowing option_toJSON (options this))) (\<lambda>serialized.
        return_value
          \<lparr> name = name this,
            name_localizations = name_localizations this,
            description = description this,
            description_localizations = description_localizations this,
            options = serialized,
            contexts = contexts this,
            default_permission = default_permission this,
            default_member_permissions = default_member_permissions this,
            dm_permission = dm_permission this,
            integration_types = integration_types this,
            nsfw = nsfw this,
            type = ChatInput \<rparr>))))) this)"

subsection \<open>The rule set as the specification describes it\<close>

text \<open>
  What the rules consult and the source does not contain: the recognized locale tags,
  the members of the two enums, the normalization of a permission input into the
  canonical bit field (\<open>None\<close> for an out-of-range or malformed input), and the
  validity rules that the joint check of name, description and options applies beyond
  their being set.
\<close>

record 'o schema =
  Locale :: "string list"
  InteractionContextType :: "jsval list"
  ApplicationIntegrationType :: "jsval list"
  canonicalPermissions :: "jsval \<Rightarrow> jsval option"
  validParameters :: "jsval \<Rightarrow> jsval \<Rightarrow> 'o list \<Rightarrow> bool"

fun isArray :: "jsval \<Rightarrow> bool" where
  "isArray (JArray xs) = True"
| "isArray v = False"

fun isBoolean :: "jsval \<Rightarrow> bool" where
  "isBoolean (JBoolean b) = True"
| "isBoolean v = False"

fun nonEmptyString :: "jsval \<Rightarrow> bool" where
  "nonEmptyString (JString s) = (s \<noteq> [])"
| "nonEmptyString v = False"

text \<open>
  Modelled from the spec: \<^verbatim>\<open>normalizeArray\<close> of \<^verbatim>\<open>util/normalizeArray.js\<close> is missing.
  It "converts a call made either as fn(a, b, c) or fn([a, b, c]) into a single ordered
  sequence"; a shape error is "raised when a variadic-or-array input is structurally
  malformed before rule validation even runs (e.g., mixing spread and array forms
  incorrectly)".
\<close>

definition normalizeArray_spec :: "jsval list \<Rightarrow> error + jsval list" where
  "normalizeArray_spec arr =
     (case arr of
        [JArray xs] \<Rightarrow> Inr xs
      | _ \<Rightarrow> if list_ex isArray arr then Inl ShapeError else Inr arr)"

text \<open>
  Modelled from the spec: \<^verbatim>\<open>contextsPredicate\<close> and \<^verbatim>\<open>integrationTypesPredicate\<close> of
  \<^verbatim>\<open>Assertions.js\<close> are missing. The input "must be a non-empty set of recognized enum
  members after normalization"; it is stored as it is.
\<close>

definition enumArray_spec :: "string \<Rightarrow> jsval list \<Rightarrow> jsval \<Rightarrow> error + jsval" where
  "enumArray_spec rule members v =
     (case v of
        JArray xs \<Rightarrow>
          if xs \<noteq> [] \<and> list_all (\<lambda>x. x \<in> set members) xs then Inr v
          else Inl (ValidationError rule v)
      | _ \<Rightarrow> Inl (ValidationError rule v))"

text \<open>
  Modelled from the spec: \<^verbatim>\<open>validateDefaultPermission\<close> and \<^verbatim>\<open>validateNSFW\<close> of
  \<^verbatim>\<open>Assertions.js\<close> are missing. The "value must be strictly boolean".
\<close>

definition boolean_spec :: "string \<Rightarrow> jsval \<Rightarrow> error + unit" where
  "boolean_spec rule v = (if isBoolean v then Inr () else Inl (ValidationError rule v))"

text \<open>
  Modelled from the spec: \<^verbatim>\<open>validateDMPermission\<close> of \<^verbatim>\<open>Assertions.js\<close> is missing. It
  "accepts boolean, null, or undefined; all three are valid and distinguishable".
\<close>

definition validateDMPermission_spec :: "jsval \<Rightarrow> error + unit" where
  "validateDMPermission_spec v =
     (if isBoolean v \<or> v = JNull \<or> v = JUndefined then Inr ()
      else Inl (ValidationError ''dm_permission'' v))"

text \<open>
  Modelled from the spec: \<^verbatim>\<open>validateDefaultMemberPermissions\<close> of \<^verbatim>\<open>Assertions.js\<close> is
  missing. It "accepts a permission bitfield, a signed/unsigned integer literal, or
  null/undefined; null is a valid, meaningful value and must be preserved as null, not
  coerced to unset; non-null inputs are normalized into the canonical bitfield
  representation; out-of-range or malformed inputs fail validation".
\<close>

definition validateDefaultMemberPermissions_spec :: "'o schema \<Rightarrow> jsval \<Rightarrow> error + jsval" where
  "validateDefaultMemberPermissions_spec S v =
     (case v of
        JNull \<Rightarrow> Inr JNull
      | JUndefined \<Rightarrow> Inr JUndefined
      | _ \<Rightarrow>
          (case canonicalPermissions S v of
             Some bits \<Rightarrow> Inr bits
           | None \<Rightarrow> Inl (ValidationError ''default_member_permissions'' v)))"

text \<open>
  Modelled from the spec: \<^verbatim>\<open>validateRequiredParameters\<close> of \<^verbatim>\<open>Assertions.js\<close> is missing.
  It is the check "over (name, description, options) jointly" that "fails if name or
  description is unset/empty or if options is not a valid sequence (even if empty, it
  must exist as a sequence)"; it "accepts all three together, not independently, because
  some validation rules are cross-field". The field \<^verbatim>\<open>options\<close> always holds a sequence
  here; what makes a set name, a set description and a sequence of options valid
  together is the schema's \<open>validParameters\<close>.
\<close>

definition validateRequiredParameters_spec ::
  "'o schema \<Rightarrow> jsval \<Rightarrow> jsval \<Rightarrow> 'o list \<Rightarrow> error + unit" where
  "validateRequiredParameters_spec S name' description' options' =
     (if \<not> nonEmptyString name' then Inl (ValidationError ''name'' name')
      else if \<not> nonEmptyString description' then Inl (ValidationError ''description'' description')
      else if \<not> validParameters S name' description' options'
        then Inl (ValidationError ''parameters'' (JArray [name', description']))
      else Inr ())"

text \<open>
  Modelled from the spec: \<^verbatim>\<open>validateLocalizationMap\<close> of \<^verbatim>\<open>Assertions.js\<close> is missing.
  The maps are optional; a map that is present "fails if any key is not a recognized
  locale tag or any value fails the base-field shape check".
\<close>

definition validateLocalizationMap_spec :: "'o schema \<Rightarrow> jsval \<Rightarrow> error + unit" where
  "validateLocalizationMap_spec S v =
     (case v of
        JUndefined \<Rightarrow> Inr ()
      | JObject entries \<Rightarrow>
          if list_all (\<lambda>(k, x). k \<in> set (Locale S) \<and> nonEmptyString x) entries then Inr ()
          else Inl (ValidationError ''localizations'' v)
      | _ \<Rightarrow> Inl (ValidationError ''localizations'' v))"

definition specRules :: "'o schema \<Rightarrow> 'o rules" where
  "specRules S =
     \<lparr> normalizeArray = normalizeArray_spec,
       contextsPredicate_parse = enumArray_spec ''contexts'' (InteractionContextType S),
       integrationTypesPredicate_parse =
         enumArray_spec ''integration_types'' (ApplicationIntegrationType S),
       validateDMPermission = validateDMPermission_spec,
       validateDefaultMemberPermissions = validateDefaultMemberPermissions_spec S,
       validateDefaultPermission = boolean_spec ''default_permission'',
       validateLocalizationMap = validateLocalizationMap_spec S,
       validateNSFW = boolean_spec ''nsfw'',
       validateRequiredParameters = validateRequiredParameters_spec S \<rparr>"

subsection \<open>Concrete instances\<close>

text \<open>
  A schema, an option type and descriptors at which the theorems below are evaluated.
  An option is given by its name and serializes to an object holding the name; an option
  without a name does not serialize. In this schema a name is valid when it has at most
  32 characters and no upper-case letter, a description when it has at most 100
  characters, and the options when there are at most 25 of them.
\<close>

definition exampleValidParameters :: "jsval \<Rightarrow> jsval \<Rightarrow> string list \<Rightarrow> bool" where
  "exampleValidParameters name' description' options' =
     (case (name', description') of
        (JString n, JString d) \<Rightarrow>
          length n \<le> 32 \<and> list_all (\<lambda>c. c \<notin> set ''ABCDEFGHIJKLMNOPQRSTUVWXYZ'') n \<and>
          length d \<le> 100 \<and> length options' \<le> 25
      | _ \<Rightarrow> False)"

definition exampleSchema :: "string schema" where
  "exampleSchema =
     \<lparr> Locale = [''en-US'', ''fr'', ''de''],
       InteractionContextType = [JNumber 0, JNumber 1, JNumber 2],
       ApplicationIntegrationType = [JNumber 0, JNumber 1],
       canonicalPermissions =
         (\<lambda>v. case v of
            JBigInt n \<Rightarrow> if 0 \<le> n then Some (JBigInt n) else None
          | JNumber n \<Rightarrow> if 0 \<le> n then Some (JBigInt n) else None
          | _ \<Rightarrow> None),
       validParameters = exampleValidParameters \<rparr>"

definition example_option_toJSON :: "string \<Rightarrow> error + jsval" where
  "example_option_toJSON opt =
     (if opt = [] then Inl (ValidationError ''option'' (JString opt))
      else Inr (JObject [(''name'', JString opt)]))"

definition ping :: "string SharedSlashCommand" where
  "ping = new_SharedSlashCommand
     \<lparr> name := JString ''ping'', description := JString ''Replies with pong'' \<rparr>"

definition ping_xyz :: "string SharedSlashCommand" where
  "ping_xyz = ping \<lparr> options := [''x'', ''y'', ''z''] \<rparr>"

definition ping_xyz_document :: "jsval RESTPostAPIChatInputApplicationCommandsJSONBody" where
  "ping_xyz_document =
     \<lparr> name = JString ''ping'',
       name_localizations = JUndefined,
       description = JString ''Replies with pong'',
       description_localizations = JUndefined,
       options = [JObject [(''name'', JString ''x'')], JObject [(''name'', JString ''y'')],
                  JObject [(''name'', JString ''z'')]],
       contexts = JUndefined,
       default_permission = JUndefined,
       default_member_permissions = JUndefined,
       dm_permission = JUndefined,
       integration_types = JUndefined,
       nsfw = JUndefined,
       type = ChatInput \<rparr>"

definition ping_unknown_locale :: "string SharedSlashCommand" where
  "ping_unknown_locale = ping \<lparr> name_localizations := JObject [(''tlh'', JString ''ping'')] \<rparr>"

definition exampleRules :: "string rules" where
  "exampleRules = specRules exampleSchema"

definition ping_legacy :: "string SharedSlashCommand" where
  "ping_legacy = ping
     \<lparr> default_member_permissions := JBigInt 8, contexts := JArray [JNumber 0],
       dm_permission := JBoolean False \<rparr>"

definition ping_legacy_document :: "jsval RESTPostAPIChatInputApplicationCommandsJSONBody" where
  "ping_legacy_document =
     \<lparr> name = JString ''ping'',
       name_localizations = JUndefined,
       description = JString ''Replies with pong'',
       description_localizations = JUndefined,
       options = [],
       contexts = JArray [JNumber 0],
       default_permission = JUndefined,
       default_member_permissions = JBigInt 8,
       dm_permission = JBoolean False,
       integration_types = JUndefined,
       nsfw = JUndefined,
       type = ChatInput \<rparr>"

definition ping_unnamed_option :: "string SharedSlashCommand" where
  "ping_unnamed_option = ping \<lparr> options := [[]] \<rparr>"

section \<open>Properties\<close>

subsection \<open>Unfolding the methods\<close>

lemmas method_defs = andThen_def call_def Reflect_set_def return_value_def

lemmas spec_defs =
  specRules_def normalizeArray_spec_def enumArray_spec_def boolean_spec_def
  validateDMPermission_spec_def validateDefaultMemberPermissions_spec_def
  validateRequiredParameters_spec_def validateLocalizationMap_spec_def

lemmas example_defs =
  exampleRules_def exampleSchema_def exampleValidParameters_def example_option_toJSON_def ping_def new_SharedSlashCommand_def

lemma mapThrowing_Inr:
  "mapThrowing f xs = Inr ys \<Longrightarrow> map Inr ys = map f xs"
  by (induction xs arbitrary: ys) (auto split: sum.splits)

lemma mapThrowing_succeeds:
  "(\<forall>x \<in> set xs. \<exists>y. f x = Inr y) \<Longrightarrow> \<exists>ys. mapThrowing f xs = Inr ys"
  by (induction xs) (auto split: sum.splits)

lemma toJSON_state: "snd (toJSON R option_toJSON this) = this"
  by (simp add: toJSON_def method_defs split: sum.splits)

lemma toJSON_Inr:
  assumes "toJSON R option_toJSON this = (Inr doc, this')"
  shows "this' = this"
    and "validateRequiredParameters R (name this) (description this) (options this) = Inr ()"
    and "validateLocalizationMap R (name_localizations this) = Inr ()"
    and "validateLocalizationMap R (description_localizations this) = Inr ()"
    and "\<exists>serialized. mapThrowing option_toJSON (options this) = Inr serialized \<and>
          doc = \<lparr> name = name this,
                  name_localizations = name_localizations this,
                  description = description this,
                  description_localizations = description_localizations this,
                  options = serialized,
                  contexts = contexts this,
                  default_permission = default_permission this,
                  default_member_permissions = default_member_permissions this,
                  dm_permission = dm_permission this,
                  integration_types = integration_types this,
                  nsfw = nsfw this,
                  type = ChatInput \<rparr>"
  using assms by (auto simp: toJSON_def method_defs split: sum.splits)

lemma toJSON_succeeds:
  assumes "validateRequiredParameters R (name this) (description this) (options this) = Inr ()"
    and "validateLocalizationMap R (name_localizations this) = Inr ()"
    and "validateLocalizationMap R (description_localizations this) = Inr ()"
    and "mapThrowing option_toJSON (options this) = Inr serialized"
  shows "toJSON R option_toJSON this =
          (Inr \<lparr> name = name this,
                 name_localizations = name_localizations this,
                 description = description this,
                 description_localizations = description_localizations this,
                 options = serialized,
                 contexts = contexts this,
                 default_permission = default_permission this,
                 default_member_permissions = default_member_permissions this,
                 dm_permission = dm_permission this,
                 integration_types = integration_types this,
                 nsfw = nsfw this,
                 type = ChatInput \<rparr>, this)"
  using assms by (simp add: toJSON_def method_defs)

subsection \<open>The document is a copy of the fields\<close>

text \<open>
  C1. Whatever the descriptor holds, a \<^verbatim>\<open>toJSON()\<close> that returns gives a document whose
  fields are the descriptor's fields, one for one, except that \<^verbatim>\<open>type\<close> is the chat-input
  command type and \<^verbatim>\<open>options\<close> is the sequence of the results of the options' own
  \<^verbatim>\<open>toJSON()\<close>, in the descriptor's order: for the options X, Y, Z the document holds
  the serialization of X, then that of Y, then that of Z.
\<close>

theorem toJSON_shallow_copy:
  assumes "toJSON R option_toJSON this = (Inr doc, this')"
  shows "name doc = name this \<and>
         name_localizations doc = name_localizations this \<and>
         description doc = description this \<and>
         description_localizations doc = description_localizations this \<and>
         contexts doc = contexts this \<and>
         default_permission doc = default_permission this \<and>
         default_member_permissions doc = default_member_permissions this \<and>
         dm_permission doc = dm_permission this \<and>
         integration_types doc = integration_types this \<and>
         nsfw doc = nsfw this \<and>
         type doc = ChatInput \<and>
         map Inr (options doc) = map option_toJSON (options this) \<and>
         (\<forall>X Y Z. options this = [X, Y, Z] \<longrightarrow>
            (\<exists>x y z. option_toJSON X = Inr x \<and> option_toJSON Y = Inr y \<and>
                     option_toJSON Z = Inr z \<and> options doc = [x, y, z]))"
proof -
  from toJSON_Inr(5) [OF assms] obtain serialized where
    ser: "mapThrowing option_toJSON (options this) = Inr serialized"
    and doc: "doc = \<lparr> name = name this,
                  name_localizations = name_localizations this,
                  description = description this,
                  description_localizations = description_localizations this,
                  options = serialized,
                  contexts = contexts this,
                  default_permission = default_permission this,
                  default_member_permissions = default_member_permissions this,
                  dm_permission = dm_permission this,
                  integration_types = integration_types this,
                  nsfw = nsfw this,
                  type = ChatInput \<rparr>"
    by blast
  have order: "map Inr serialized = map option_toJSON (options this)"
    using ser by (rule mapThrowing_Inr)
  have three: "\<forall>X Y Z. options this = [X, Y, Z] \<longrightarrow>
      (\<exists>x y z. option_toJSON X = Inr x \<and> option_toJSON Y = Inr y \<and>
               option_toJSON Z = Inr z \<and> serialized = [x, y, z])"
    using ser by (auto split: sum.splits)
  show ?thesis
    using order three by (simp add: doc)
qed

theorem toJSON_shallow_copy_witness:
  "toJSON (specRules exampleSchema) example_option_toJSON ping_xyz = (Inr ping_xyz_document, ping_xyz) \<and>
   name ping_xyz_document = name ping_xyz \<and>
   nsfw ping_xyz_document = nsfw ping_xyz \<and>
   type ping_xyz_document = ChatInput \<and>
   map Inr (options ping_xyz_document) = map example_option_toJSON (options ping_xyz) \<and>
   options ping_xyz_document =
     [JObject [(''name'', JString ''x'')], JObject [(''name'', JString ''y'')],
      JObject [(''name'', JString ''z'')]]"
proof -
  have run: "toJSON (specRules exampleSchema) example_option_toJSON ping_xyz =
      (Inr ping_xyz_document, ping_xyz)"
    by (simp add: toJSON_def method_defs spec_defs example_defs ping_xyz_def
        ping_xyz_document_def)
  show ?thesis
    using run toJSON_shallow_copy [OF run] by (simp add: ping_xyz_document_def)
qed

subsection \<open>When serialization succeeds\<close>

text \<open>
  C2, as stated, fails: a descriptor with a valid name, a valid description and no
  options, whose \<^verbatim>\<open>name_localizations\<close> has a key that is no locale tag, is rejected by
  the second check of \<^verbatim>\<open>toJSON()\<close>; and a descriptor with a valid name and description
  and an option that does not serialize is rejected when the options are mapped.
\<close>

theorem toJSON_required_parameters_counterexample:
  "nonEmptyString (name ping_unknown_locale) \<and>
   nonEmptyString (description ping_unknown_locale) \<and>
   options ping_unknown_locale = [] \<and>
   validateRequiredParameters_spec exampleSchema (name ping_unknown_locale)
     (description ping_unknown_locale) (options ping_unknown_locale) = Inr () \<and>
   toJSON (specRules exampleSchema) example_option_toJSON ping_unknown_locale =
     (Inl (ValidationError ''localizations'' (JObject [(''tlh'', JString ''ping'')])),
      ping_unknown_locale) \<and>
   nonEmptyString (name ping_unnamed_option) \<and>
   nonEmptyString (description ping_unnamed_option) \<and>
   validateRequiredParameters_spec exampleSchema (name ping_unnamed_option)
     (description ping_unnamed_option) (options ping_unnamed_option) = Inr () \<and>
   toJSON (specRules exampleSchema) example_option_toJSON ping_unnamed_option =
     (Inl (ValidationError ''option'' (JString [])), ping_unnamed_option)"
  by (simp add: toJSON_def method_defs spec_defs example_defs ping_unknown_locale_def
      ping_unnamed_option_def)

text \<open>
  C2, amended. For every rule set, \<^verbatim>\<open>toJSON()\<close> succeeds for every descriptor whose name,
  description and options pass the required-parameter check (a valid non-empty name, a
  valid non-empty description, an existing and possibly empty sequence of options),
  whose two localization maps pass the localization-map check and whose options all
  serialize, and the document's name and description are the stored ones. Whenever the
  required-parameter check fails, \<^verbatim>\<open>toJSON()\<close> fails with that error, returns no document
  and leaves the descriptor as it was; under the rule set of the specification this is so
  for every descriptor whose name or description is unset or empty, and the error is a
  validation error.
\<close>

theorem toJSON_required_parameters:
  "(validateRequiredParameters R (name this) (description this) (options this) = Inr () \<and>
    validateLocalizationMap R (name_localizations this) = Inr () \<and>
    validateLocalizationMap R (description_localizations this) = Inr () \<and>
    (\<forall>opt \<in> set (options this). \<exists>j. option_toJSON opt = Inr j) \<longrightarrow>
      (\<exists>doc. toJSON R option_toJSON this = (Inr doc, this) \<and>
             name doc = name this \<and> description doc = description this)) \<and>
   (validateRequiredParameters R (name this) (description this) (options this) = Inl e \<longrightarrow>
      toJSON R option_toJSON this = (Inl e, this)) \<and>
   (\<not> nonEmptyString (name this) \<or> \<not> nonEmptyString (description this) \<longrightarrow>
      (\<exists>rule v. toJSON (specRules S) option_toJSON this = (Inl (ValidationError rule v), this)))"
proof (intro conjI impI)
  assume ok: "validateRequiredParameters R (name this) (description this) (options this) = Inr () \<and>
    validateLocalizationMap R (name_localizations this) = Inr () \<and>
    validateLocalizationMap R (description_localizations this) = Inr () \<and>
    (\<forall>opt \<in> set (options this). \<exists>j. option_toJSON opt = Inr j)"
  then obtain serialized where ser: "mapThrowing option_toJSON (options this) = Inr serialized"
    using mapThrowing_succeeds [of "options this" option_toJSON] by blast
  from ok have req: "validateRequiredParameters R (name this) (description this) (options this) = Inr ()"
    and loc1: "validateLocalizationMap R (name_localizations this) = Inr ()"
    and loc2: "validateLocalizationMap R (description_localizations this) = Inr ()"
    by simp_all
  show "\<exists>doc. toJSON R option_toJSON this = (Inr doc, this) \<and>
             name doc = name this \<and> description doc = description this"
    using toJSON_succeeds [OF req loc1 loc2 ser] by simp
next
  assume "validateRequiredParameters R (name this) (description this) (options this) = Inl e"
  then show "toJSON R option_toJSON this = (Inl e, this)"
    by (simp add: toJSON_def method_defs)
next
  assume bad: "\<not> nonEmptyString (name this) \<or> \<not> nonEmptyString (description this)"
  then show "\<exists>rule v. toJSON (specRules S) option_toJSON this = (Inl (ValidationError rule v), this)"
    by (auto simp: toJSON_def method_defs specRules_def validateRequiredParameters_spec_def)
qed

theorem toJSON_required_parameters_witness:
  "validateRequiredParameters exampleRules (name ping_xyz) (description ping_xyz) (options ping_xyz) =
     Inr () \<and>
   validateLocalizationMap exampleRules (name_localizations ping_xyz) = Inr () \<and>
   validateLocalizationMap exampleRules (description_localizations ping_xyz) = Inr () \<and>
   map example_option_toJSON (options ping_xyz) = map Inr (options ping_xyz_document) \<and>
   toJSON exampleRules example_option_toJSON ping_xyz = (Inr ping_xyz_document, ping_xyz) \<and>
   name ping_xyz_document = JString ''ping'' \<and>
   description ping_xyz_document = JString ''Replies with pong'' \<and>
   validateRequiredParameters exampleRules (name (ping\<lparr>name := JString ''Ping''\<rparr>))
     (description (ping\<lparr>name := JString ''Ping''\<rparr>)) (options (ping\<lparr>name := JString ''Ping''\<rparr>)) =
     Inl (ValidationError ''parameters'' (JArray [JString ''Ping'', JString ''Replies with pong''])) \<and>
   toJSON exampleRules example_option_toJSON (ping\<lparr>name := JString ''Ping''\<rparr>) =
     (Inl (ValidationError ''parameters'' (JArray [JString ''Ping'', JString ''Replies with pong''])),
      ping\<lparr>name := JString ''Ping''\<rparr>) \<and>
   name (new_SharedSlashCommand :: string SharedSlashCommand) = JUndefined \<and>
   toJSON exampleRules example_option_toJSON new_SharedSlashCommand =
     (Inl (ValidationError ''name'' JUndefined), new_SharedSlashCommand)"
proof -
  have req: "validateRequiredParameters exampleRules (name ping_xyz) (description ping_xyz)
      (options ping_xyz) = Inr ()"
    by (simp add: spec_defs example_defs ping_xyz_def)
  have loc: "validateLocalizationMap exampleRules (name_localizations ping_xyz) = Inr ()"
    "validateLocalizationMap exampleRules (description_localizations ping_xyz) = Inr ()"
    by (simp_all add: spec_defs example_defs ping_xyz_def)
  have opts: "map example_option_toJSON (options ping_xyz) = map Inr (options ping_xyz_document)"
    by (simp add: example_defs ping_xyz_def ping_xyz_document_def)
  have run: "toJSON exampleRules example_option_toJSON ping_xyz = (Inr ping_xyz_document, ping_xyz)"
    by (simp add: toJSON_def method_defs spec_defs example_defs ping_xyz_def
        ping_xyz_document_def)
  have upper: "validateRequiredParameters exampleRules (name (ping\<lparr>name := JString ''Ping''\<rparr>))
     (description (ping\<lparr>name := JString ''Ping''\<rparr>)) (options (ping\<lparr>name := JString ''Ping''\<rparr>)) =
     Inl (ValidationError ''parameters'' (JArray [JString ''Ping'', JString ''Replies with pong'']))"
    by (simp add: spec_defs example_defs)
  have unset: "toJSON exampleRules example_option_toJSON new_SharedSlashCommand =
     (Inl (ValidationError ''name'' JUndefined), new_SharedSlashCommand)"
    by (simp add: toJSON_def method_defs spec_defs example_defs)
  show ?thesis
    using req loc opts run upper unset
      toJSON_required_parameters [where R = exampleRules and this = ping_xyz
        and option_toJSON = example_option_toJSON and S = exampleSchema
        and e = "ValidationError ''name'' JUndefined"]
      toJSON_required_parameters [where R = exampleRules
        and this = "ping\<lparr>name := JString ''Ping''\<rparr>"
        and option_toJSON = example_option_toJSON and S = exampleSchema
        and e = "ValidationError ''parameters''
                   (JArray [JString ''Ping'', JString ''Replies with pong''])"]
      toJSON_required_parameters [where R = exampleRules and this = new_SharedSlashCommand
        and option_toJSON = example_option_toJSON and S = exampleSchema
        and e = "ValidationError ''name'' JUndefined"]
    by (simp add: ping_xyz_document_def new_SharedSlashCommand_def)
qed

subsection \<open>A rejected input leaves the descriptor alone\<close>

lemma setContexts_outcome:
  "setContexts R xs this =
     (case normalizeArray R xs of
        Inl e \<Rightarrow> (Inl e, this)
      | Inr arr \<Rightarrow>
          (case contextsPredicate_parse R (JArray arr) of
             Inl e \<Rightarrow> (Inl e, this)
           | Inr parsed \<Rightarrow> (Inr (), this\<lparr>contexts := parsed\<rparr>)))"
  by (simp add: setContexts_def method_defs split: sum.splits)

lemma setIntegrationTypes_outcome:
  "setIntegrationTypes R xs this =
     (case normalizeArray R xs of
        Inl e \<Rightarrow> (Inl e, this)
      | Inr arr \<Rightarrow>
          (case integrationTypesPredicate_parse R (JArray arr) of
             Inl e \<Rightarrow> (Inl e, this)
           | Inr parsed \<Rightarrow> (Inr (), this\<lparr>integration_types := parsed\<rparr>)))"
  by (simp add: setIntegrationTypes_def method_defs split: sum.splits)

lemma setDefaultPermission_outcome:
  "setDefaultPermission R v this =
     (case validateDefaultPermission R v of
        Inl e \<Rightarrow> (Inl e, this)
      | Inr u \<Rightarrow> (Inr (), this\<lparr>default_permission := v\<rparr>))"
  by (simp add: setDefaultPermission_def method_defs split: sum.splits)

lemma setDefaultMemberPermissions_outcome:
  "setDefaultMemberPermissions R v this =
     (case validateDefaultMemberPermissions R v of
        Inl e \<Rightarrow> (Inl e, this)
      | Inr permissionValue \<Rightarrow> (Inr (), this\<lparr>default_member_permissions := permissionValue\<rparr>))"
  by (simp add: setDefaultMemberPermissions_def method_defs split: sum.splits)

lemma setDMPermission_outcome:
  "setDMPermission R v this =
     (case validateDMPermission R v of
        Inl e \<Rightarrow> (Inl e, this)
      | Inr u \<Rightarrow> (Inr (), this\<lparr>dm_permission := v\<rparr>))"
  by (simp add: setDMPermission_def method_defs split: sum.splits)

lemma setNSFW_outcome:
  "setNSFW R arg this =
     (case validateNSFW R (defaultParam arg (JBoolean True)) of
        Inl e \<Rightarrow> (Inl e, this)
      | Inr u \<Rightarrow> (Inr (), this\<lparr>nsfw := defaultParam arg (JBoolean True)\<rparr>))"
  by (simp add: setNSFW_def method_defs Let_def split: sum.splits)

text \<open>
  C3. For each of the six setters and every input that its validation rule rejects, the
  setter throws the rule's error and the descriptor after the call is the descriptor
  before it: the target field and every other field keep their values, so a
  \<^verbatim>\<open>toJSON()\<close> that follows gives what it gave before. The same holds when the
  rest-or-array argument list itself is rejected.
\<close>

theorem setters_reject_without_mutation:
  "(normalizeArray R xs = Inl e \<or>
      (\<exists>arr. normalizeArray R xs = Inr arr \<and> contextsPredicate_parse R (JArray arr) = Inl e) \<longrightarrow>
      setContexts R xs this = (Inl e, this) \<and>
      toJSON R option_toJSON (snd (setContexts R xs this)) = toJSON R option_toJSON this) \<and>
   (normalizeArray R xs = Inl e \<or>
      (\<exists>arr. normalizeArray R xs = Inr arr \<and> integrationTypesPredicate_parse R (JArray arr) = Inl e) \<longrightarrow>
      setIntegrationTypes R xs this = (Inl e, this) \<and>
      toJSON R option_toJSON (snd (setIntegrationTypes R xs this)) = toJSON R option_toJSON this) \<and>
   (validateDefaultPermission R v = Inl e \<longrightarrow>
      setDefaultPermission R v this = (Inl e, this) \<and>
      toJSON R option_toJSON (snd (setDefaultPermission R v this)) = toJSON R option_toJSON this) \<and>
   (validateDefaultMemberPermissions R v = Inl e \<longrightarrow>
      setDefaultMemberPermissions R v this = (Inl e, this) \<and>
      toJSON R option_toJSON (snd (setDefaultMemberPermissions R v this)) =
        toJSON R option_toJSON this) \<and>
   (validateDMPermission R v = Inl e \<longrightarrow>
      setDMPermission R v this = (Inl e, this) \<and>
      toJSON R option_toJSON (snd (setDMPermission R v this)) = toJSON R option_toJSON this) \<and>
   (validateNSFW R (defaultParam arg (JBoolean True)) = Inl e \<longrightarrow>
      setNSFW R arg this = (Inl e, this) \<and>
      toJSON R option_toJSON (snd (setNSFW R arg this)) = toJSON R option_toJSON this)"
proof (intro conjI impI)
  assume "normalizeArray R xs = Inl e \<or>
      (\<exists>arr. normalizeArray R xs = Inr arr \<and> contextsPredicate_parse R (JArray arr) = Inl e)"
  then show c: "setContexts R xs this = (Inl e, this)"
    by (auto simp: setContexts_outcome)
  then show "toJSON R option_toJSON (snd (setContexts R xs this)) = toJSON R option_toJSON this"
    by simp
next
  assume "normalizeArray R xs = Inl e \<or>
      (\<exists>arr. normalizeArray R xs = Inr arr \<and> integrationTypesPredicate_parse R (JArray arr) = Inl e)"
  then show c: "setIntegrationTypes R xs this = (Inl e, this)"
    by (auto simp: setIntegrationTypes_outcome)
  then show "toJSON R option_toJSON (snd (setIntegrationTypes R xs this)) =
      toJSON R option_toJSON this"
    by simp
next
  assume "validateDefaultPermission R v = Inl e"
  then show c: "setDefaultPermission R v this = (Inl e, this)"
    by (simp add: setDefaultPermission_outcome)
  then show "toJSON R option_toJSON (snd (setDefaultPermission R v this)) =
      toJSON R option_toJSON this"
    by simp
next
  assume "validateDefaultMemberPermissions R v = Inl e"
  then show c: "setDefaultMemberPermissions R v this = (Inl e, this)"
    by (simp add: setDefaultMemberPermissions_outcome)
  then show "toJSON R option_toJSON (snd (setDefaultMemberPermissions R v this)) =
      toJSON R option_toJSON this"
    by simp
next
  assume "validateDMPermission R v = Inl e"
  then show c: "setDMPermission R v this = (Inl e, this)"
    by (simp add: setDMPermission_outcome)
  then show "toJSON R option_toJSON (snd (setDMPermission R v this)) =
      toJSON R option_toJSON this"
    by simp
next
  assume "validateNSFW R (defaultParam arg (JBoolean True)) = Inl e"
  then show c: "setNSFW R arg this = (Inl e, this)"
    by (simp add: setNSFW_outcome)
  then show "toJSON R option_toJSON (snd (setNSFW R arg this)) = toJSON R option_toJSON this"
    by simp
qed

theorem setters_reject_without_mutation_witness:
  "setContexts exampleRules [JString ''guild''] ping =
     (Inl (ValidationError ''contexts'' (JArray [JString ''guild''])), ping) \<and>
   setIntegrationTypes exampleRules [JArray [JNumber 7]] ping =
     (Inl (ValidationError ''integration_types'' (JArray [JNumber 7])), ping) \<and>
   setDefaultPermission exampleRules (JString ''yes'') ping =
     (Inl (ValidationError ''default_permission'' (JString ''yes'')), ping) \<and>
   setDefaultMemberPermissions exampleRules (JBoolean True) ping =
     (Inl (ValidationError ''default_member_permissions'' (JBoolean True)), ping) \<and>
   setDMPermission exampleRules (JNumber 1) ping =
     (Inl (ValidationError ''dm_permission'' (JNumber 1)), ping) \<and>
   setNSFW exampleRules (Some JNull) ping = (Inl (ValidationError ''nsfw'' JNull), ping)"
proof -
  have r1: "normalizeArray exampleRules [JString ''guild''] = Inr [JString ''guild''] \<and>
      contextsPredicate_parse exampleRules (JArray [JString ''guild'']) =
        Inl (ValidationError ''contexts'' (JArray [JString ''guild'']))"
    by (simp add: spec_defs example_defs)
  have r2: "normalizeArray exampleRules [JArray [JNumber 7]] = Inr [JNumber 7] \<and>
      integrationTypesPredicate_parse exampleRules (JArray [JNumber 7]) =
        Inl (ValidationError ''integration_types'' (JArray [JNumber 7]))"
    by (simp add: spec_defs example_defs)
  have r3: "validateDefaultPermission exampleRules (JString ''yes'') =
      Inl (ValidationError ''default_permission'' (JString ''yes''))"
    by (simp add: spec_defs example_defs)
  have r4: "validateDefaultMemberPermissions exampleRules (JBoolean True) =
      Inl (ValidationError ''default_member_permissions'' (JBoolean True))"
    by (simp add: spec_defs example_defs)
  have r5: "validateDMPermission exampleRules (JNumber 1) =
      Inl (ValidationError ''dm_permission'' (JNumber 1))"
    by (simp add: spec_defs example_defs)
  have r6: "validateNSFW exampleRules (defaultParam (Some JNull) (JBoolean True)) =
      Inl (ValidationError ''nsfw'' JNull)"
    by (simp add: spec_defs example_defs defaultParam_def)
  show ?thesis
    using r1 r2 r3 r4 r5 r6
      setters_reject_without_mutation [where R = exampleRules and this = ping
        and option_toJSON = example_option_toJSON and xs = "[JString ''guild'']"
        and e = "ValidationError ''contexts'' (JArray [JString ''guild''])"
        and v = JNull and arg = None]
      setters_reject_without_mutation [where R = exampleRules and this = ping
        and option_toJSON = example_option_toJSON and xs = "[JArray [JNumber 7]]"
        and e = "ValidationError ''integration_types'' (JArray [JNumber 7])"
        and v = JNull and arg = None]
      setters_reject_without_mutation [where R = exampleRules and this = ping
        and option_toJSON = example_option_toJSON and xs = "[]"
        and e = "ValidationError ''default_permission'' (JString ''yes'')"
        and v = "JString ''yes''" and arg = None]
      setters_reject_without_mutation [where R = exampleRules and this = ping
        and option_toJSON = example_option_toJSON and xs = "[]"
        and e = "ValidationError ''default_member_permissions'' (JBoolean True)"
        and v = "JBoolean True" and arg = None]
      setters_reject_without_mutation [where R = exampleRules and this = ping
        and option_toJSON = example_option_toJSON and xs = "[]"
        and e = "ValidationError ''dm_permission'' (JNumber 1)"
        and v = "JNumber 1" and arg = None]
      setters_reject_without_mutation [where R = exampleRules and this = ping
        and option_toJSON = example_option_toJSON and xs = "[]"
        and e = "ValidationError ''nsfw'' JNull"
        and v = JNull and arg = "Some JNull"]
    by simp
qed

subsection \<open>The order of the checks of serialization\<close>

text \<open>
  C4. \<^verbatim>\<open>toJSON()\<close> runs its checks in a fixed order, and each can fail the call on its
  own: when the joint check of name, description and options fails, the call fails with
  that error; when it passes and the check of \<^verbatim>\<open>name_localizations\<close> fails, the call
  fails with that error; when both pass and the check of \<^verbatim>\<open>description_localizations\<close>
  fails, the call fails with that error. The error is the one of the first failing
  check whatever the later checks would say, and no document is returned.
\<close>

theorem toJSON_check_order:
  "(validateRequiredParameters R (name this) (description this) (options this) = Inl e \<longrightarrow>
      toJSON R option_toJSON this = (Inl e, this)) \<and>
   (validateRequiredParameters R (name this) (description this) (options this) = Inr () \<and>
    validateLocalizationMap R (name_localizations this) = Inl e \<longrightarrow>
      toJSON R option_toJSON this = (Inl e, this)) \<and>
   (validateRequiredParameters R (name this) (description this) (options this) = Inr () \<and>
    validateLocalizationMap R (name_localizations this) = Inr () \<and>
    validateLocalizationMap R (description_localizations this) = Inl e \<longrightarrow>
      toJSON R option_toJSON this = (Inl e, this))"
  by (simp add: toJSON_def method_defs)

theorem toJSON_check_order_witness:
  "toJSON exampleRules example_option_toJSON
     (new_SharedSlashCommand
        \<lparr> name_localizations := JObject [(''tlh'', JString ''a'')],
          description_localizations := JObject [(''xx'', JString ''b'')],
          options := [[]] \<rparr>) =
     (Inl (ValidationError ''name'' JUndefined),
      new_SharedSlashCommand
        \<lparr> name_localizations := JObject [(''tlh'', JString ''a'')],
          description_localizations := JObject [(''xx'', JString ''b'')],
          options := [[]] \<rparr>) \<and>
   toJSON exampleRules example_option_toJSON
     (ping
        \<lparr> name_localizations := JObject [(''tlh'', JString ''a'')],
          description_localizations := JObject [(''xx'', JString ''b'')],
          options := [[]] \<rparr>) =
     (Inl (ValidationError ''localizations'' (JObject [(''tlh'', JString ''a'')])),
      ping
        \<lparr> name_localizations := JObject [(''tlh'', JString ''a'')],
          description_localizations := JObject [(''xx'', JString ''b'')],
          options := [[]] \<rparr>) \<and>
   toJSON exampleRules example_option_toJSON
     (ping
        \<lparr> description_localizations := JObject [(''xx'', JString ''b'')],
          options := [[]] \<rparr>) =
     (Inl (ValidationError ''localizations'' (JObject [(''xx'', JString ''b'')])),
      ping
        \<lparr> description_localizations := JObject [(''xx'', JString ''b'')],
          options := [[]] \<rparr>)"
  using
    toJSON_check_order [where R = exampleRules and option_toJSON = example_option_toJSON
      and e = "ValidationError ''name'' JUndefined"
      and this = "new_SharedSlashCommand
        \<lparr> name_localizations := JObject [(''tlh'', JString ''a'')],
          description_localizations := JObject [(''xx'', JString ''b'')],
          options := [[]] \<rparr>"]
    toJSON_check_order [where R = exampleRules and option_toJSON = example_option_toJSON
      and e = "ValidationError ''localizations'' (JObject [(''tlh'', JString ''a'')])"
      and this = "ping
        \<lparr> name_localizations := JObject [(''tlh'', JString ''a'')],
          description_localizations := JObject [(''xx'', JString ''b'')],
          options := [[]] \<rparr>"]
    toJSON_check_order [where R = exampleRules and option_toJSON = example_option_toJSON
      and e = "ValidationError ''localizations'' (JObject [(''xx'', JString ''b'')])"
      and this = "ping
        \<lparr> description_localizations := JObject [(''xx'', JString ''b'')],
          options := [[]] \<rparr>"]
  by (simp add: spec_defs example_defs)

subsection \<open>Null permissions, the default of setNSFW, spread and array arguments\<close>

text \<open>
  C5. With the permission rule of the specification, \<^verbatim>\<open>setDefaultMemberPermissions(null)\<close>
  succeeds and stores \<^verbatim>\<open>null\<close>; a \<^verbatim>\<open>toJSON()\<close> that then succeeds returns a document whose
  \<^verbatim>\<open>default_member_permissions\<close> is \<^verbatim>\<open>null\<close>, which is not the value of a field that was
  never set: a fresh descriptor holds \<^verbatim>\<open>undefined\<close> there, and so does its document.
\<close>

theorem setDefaultMemberPermissions_null:
  assumes "validateDefaultMemberPermissions R = validateDefaultMemberPermissions_spec S"
  shows "setDefaultMemberPermissions R JNull this =
           (Inr (), this\<lparr>default_member_permissions := JNull\<rparr>) \<and>
         (toJSON R option_toJSON (snd (setDefaultMemberPermissions R JNull this)) = (Inr doc, this') \<longrightarrow>
            default_member_permissions doc = JNull \<and>
            default_member_permissions doc \<noteq> JUndefined) \<and>
         default_member_permissions (new_SharedSlashCommand :: 'o SharedSlashCommand) = JUndefined \<and>
         (toJSON R option_toJSON new_SharedSlashCommand = (Inr doc', this'') \<longrightarrow>
            default_member_permissions doc' = JUndefined)"
proof -
  have stored: "setDefaultMemberPermissions R JNull this =
      (Inr (), this\<lparr>default_member_permissions := JNull\<rparr>)"
    by (simp add: setDefaultMemberPermissions_outcome assms
        validateDefaultMemberPermissions_spec_def)
  have out: "default_member_permissions doc = JNull"
    if "toJSON R option_toJSON (snd (setDefaultMemberPermissions R JNull this)) = (Inr doc, this')"
    using toJSON_Inr(5) [OF that] by (auto simp: stored)
  have fresh: "default_member_permissions doc' = JUndefined"
    if "toJSON R option_toJSON new_SharedSlashCommand = (Inr doc', this'')"
    using toJSON_Inr(5) [OF that] by (auto simp: new_SharedSlashCommand_def)
  show ?thesis
    using stored out fresh by (simp add: new_SharedSlashCommand_def)
qed

theorem setDefaultMemberPermissions_null_witness:
  "validateDefaultMemberPermissions exampleRules = validateDefaultMemberPermissions_spec exampleSchema \<and>
   setDefaultMemberPermissions exampleRules JNull ping =
     (Inr (), ping\<lparr>default_member_permissions := JNull\<rparr>) \<and>
   toJSON exampleRules example_option_toJSON (ping\<lparr>default_member_permissions := JNull\<rparr>) =
     (Inr \<lparr> name = JString ''ping'',
            name_localizations = JUndefined,
            description = JString ''Replies with pong'',
            description_localizations = JUndefined,
            options = [],
            contexts = JUndefined,
            default_permission = JUndefined,
            default_member_permissions = JNull,
            dm_permission = JUndefined,
            integration_types = JUndefined,
            nsfw = JUndefined,
            type = ChatInput \<rparr>,
      ping\<lparr>default_member_permissions := JNull\<rparr>)"
proof -
  have rule: "validateDefaultMemberPermissions exampleRules =
      validateDefaultMemberPermissions_spec exampleSchema"
    by (simp add: exampleRules_def specRules_def)
  show ?thesis
    using rule
      setDefaultMemberPermissions_null [OF rule, of ping example_option_toJSON]
    by (simp add: toJSON_def method_defs spec_defs example_defs)
qed

text \<open>
  C6. In every descriptor state \<^verbatim>\<open>setNSFW()\<close> and \<^verbatim>\<open>setNSFW(true)\<close> have the same outcome
  and leave the same descriptor; when the rule accepts \<^verbatim>\<open>true\<close>, as a rule for booleans
  does, both store \<^verbatim>\<open>true\<close> in \<^verbatim>\<open>nsfw\<close>.
\<close>

theorem setNSFW_no_argument:
  "setNSFW R None this = setNSFW R (Some (JBoolean True)) this \<and>
   (validateNSFW R (JBoolean True) = Inr () \<longrightarrow>
      setNSFW R None this = (Inr (), this\<lparr>nsfw := JBoolean True\<rparr>) \<and>
      nsfw (snd (setNSFW R None this)) = JBoolean True \<and>
      nsfw (snd (setNSFW R (Some (JBoolean True)) this)) = JBoolean True)"
  by (simp add: setNSFW_outcome defaultParam_def split: sum.splits)

theorem setNSFW_no_argument_witness:
  "validateNSFW exampleRules (JBoolean True) = Inr () \<and>
   setNSFW exampleRules None ping = (Inr (), ping\<lparr>nsfw := JBoolean True\<rparr>) \<and>
   setNSFW exampleRules (Some (JBoolean True)) ping = (Inr (), ping\<lparr>nsfw := JBoolean True\<rparr>)"
proof -
  have rule: "validateNSFW exampleRules (JBoolean True) = Inr ()"
    by (simp add: spec_defs example_defs)
  show ?thesis
    using rule setNSFW_no_argument [of exampleRules ping]
    by (simp add: setNSFW_outcome defaultParam_def)
qed

lemma normalizeArray_spec_spread:
  "list_all (\<lambda>v. \<not> isArray v) values \<Longrightarrow> normalizeArray_spec values = Inr values"
  by (auto simp: normalizeArray_spec_def list_ex_iff list_all_iff split: list.splits jsval.splits)

lemma normalizeArray_spec_array: "normalizeArray_spec [JArray values] = Inr values"
  by (simp add: normalizeArray_spec_def)

text \<open>
  C7. With the normalization helper of the specification, for every sequence of enum
  values (none of which is an array), \<^verbatim>\<open>setContexts\<close> called with the values as separate
  arguments and called with one array of the same values in the same order have the same
  outcome and leave the same descriptor; so does \<^verbatim>\<open>setIntegrationTypes\<close>.
\<close>

theorem spread_and_array_arguments_agree:
  assumes "normalizeArray R = normalizeArray_spec"
    and "list_all (\<lambda>v. \<not> isArray v) values"
  shows "setContexts R values this = setContexts R [JArray values] this \<and>
         setIntegrationTypes R values this = setIntegrationTypes R [JArray values] this"
  using normalizeArray_spec_spread [OF assms(2)]
  by (simp add: setContexts_outcome setIntegrationTypes_outcome assms(1)
      normalizeArray_spec_array)

theorem spread_and_array_arguments_agree_witness:
  "normalizeArray exampleRules = normalizeArray_spec \<and>
   list_all (\<lambda>v. \<not> isArray v) [JNumber 0, JNumber 1] \<and>
   setContexts exampleRules [JNumber 0, JNumber 1] ping =
     (Inr (), ping\<lparr>contexts := JArray [JNumber 0, JNumber 1]\<rparr>) \<and>
   setContexts exampleRules [JArray [JNumber 0, JNumber 1]] ping =
     (Inr (), ping\<lparr>contexts := JArray [JNumber 0, JNumber 1]\<rparr>) \<and>
   setIntegrationTypes exampleRules [JNumber 0, JNumber 1] ping =
     (Inr (), ping\<lparr>integration_types := JArray [JNumber 0, JNumber 1]\<rparr>) \<and>
   setIntegrationTypes exampleRules [JArray [JNumber 0, JNumber 1]] ping =
     (Inr (), ping\<lparr>integration_types := JArray [JNumber 0, JNumber 1]\<rparr>)"
proof -
  have helper: "normalizeArray exampleRules = normalizeArray_spec"
    by (simp add: exampleRules_def specRules_def)
  have enums: "list_all (\<lambda>v. \<not> isArray v) [JNumber 0, JNumber 1]"
    by simp
  have spread: "setContexts exampleRules [JNumber 0, JNumber 1] ping =
      (Inr (), ping\<lparr>contexts := JArray [JNumber 0, JNumber 1]\<rparr>)"
    "setIntegrationTypes exampleRules [JNumber 0, JNumber 1] ping =
      (Inr (), ping\<lparr>integration_types := JArray [JNumber 0, JNumber 1]\<rparr>)"
    by (simp_all add: setContexts_outcome setIntegrationTypes_outcome spec_defs
        exampleRules_def exampleSchema_def)
  show ?thesis
    using helper enums spread
      spread_and_array_arguments_agree [OF helper enums, of ping]
    by simp
qed

text \<open>
  C10. \<^verbatim>\<open>setNSFW(undefined)\<close> has the outcome of \<^verbatim>\<open>setNSFW()\<close> in every descriptor state:
  the default of the parameter is taken, so when the rule accepts \<^verbatim>\<open>true\<close> the call
  stores \<^verbatim>\<open>true\<close> and does not put \<^verbatim>\<open>nsfw\<close> back to unset.
\<close>

theorem setNSFW_undefined_argument:
  "setNSFW R (Some JUndefined) this = setNSFW R None this \<and>
   (validateNSFW R (JBoolean True) = Inr () \<longrightarrow>
      setNSFW R (Some JUndefined) this = (Inr (), this\<lparr>nsfw := JBoolean True\<rparr>) \<and>
      nsfw (snd (setNSFW R (Some JUndefined) this)) \<noteq> JUndefined)"
  by (simp add: setNSFW_outcome defaultParam_def split: sum.splits)

theorem setNSFW_undefined_argument_witness:
  "validateNSFW exampleRules (JBoolean True) = Inr () \<and>
   setNSFW exampleRules (Some JUndefined) (ping\<lparr>nsfw := JBoolean False\<rparr>) =
     (Inr (), ping\<lparr>nsfw := JBoolean True\<rparr>)"
proof -
  have rule: "validateNSFW exampleRules (JBoolean True) = Inr ()"
    by (simp add: spec_defs example_defs)
  show ?thesis
    using rule setNSFW_undefined_argument [of exampleRules "ping\<lparr>nsfw := JBoolean False\<rparr>"]
    by (simp add: setNSFW_outcome defaultParam_def)
qed

subsection \<open>Serialization reads, and reads every field as it is\<close>

lemma toJSON_after_contexts:
  "toJSON R option_toJSON (this\<lparr>contexts := x\<rparr>) =
     (case toJSON R option_toJSON this of
        (Inl e, s) \<Rightarrow> (Inl e, this\<lparr>contexts := x\<rparr>)
      | (Inr doc, s) \<Rightarrow> (Inr (doc\<lparr>contexts := x\<rparr>), this\<lparr>contexts := x\<rparr>))"
  by (simp add: toJSON_def method_defs split: sum.splits)

lemma toJSON_after_integration_types:
  "toJSON R option_toJSON (this\<lparr>integration_types := x\<rparr>) =
     (case toJSON R option_toJSON this of
        (Inl e, s) \<Rightarrow> (Inl e, this\<lparr>integration_types := x\<rparr>)
      | (Inr doc, s) \<Rightarrow> (Inr (doc\<lparr>integration_types := x\<rparr>), this\<lparr>integration_types := x\<rparr>))"
  by (simp add: toJSON_def method_defs split: sum.splits)

lemma toJSON_after_default_permission:
  "toJSON R option_toJSON (this\<lparr>default_permission := x\<rparr>) =
     (case toJSON R option_toJSON this of
        (Inl e, s) \<Rightarrow> (Inl e, this\<lparr>default_permission := x\<rparr>)
      | (Inr doc, s) \<Rightarrow> (Inr (doc\<lparr>default_permission := x\<rparr>), this\<lparr>default_permission := x\<rparr>))"
  by (simp add: toJSON_def method_defs split: sum.splits)

lemma toJSON_after_default_member_permissions:
  "toJSON R option_toJSON (this\<lparr>default_member_permissions := x\<rparr>) =
     (case toJSON R option_toJSON this of
        (Inl e, s) \<Rightarrow> (Inl e, this\<lparr>default_member_permissions := x\<rparr>)
      | (Inr doc, s) \<Rightarrow>
          (Inr (doc\<lparr>default_member_permissions := x\<rparr>), this\<lparr>default_member_permissions := x\<rparr>))"
  by (simp add: toJSON_def method_defs split: sum.splits)

lemma toJSON_after_dm_permission:
  "toJSON R option_toJSON (this\<lparr>dm_permission := x\<rparr>) =
     (case toJSON R option_toJSON this of
        (Inl e, s) \<Rightarrow> (Inl e, this\<lparr>dm_permission := x\<rparr>)
      | (Inr doc, s) \<Rightarrow> (Inr (doc\<lparr>dm_permission := x\<rparr>), this\<lparr>dm_permission := x\<rparr>))"
  by (simp add: toJSON_def method_defs split: sum.splits)

lemma toJSON_after_nsfw:
  "toJSON R option_toJSON (this\<lparr>nsfw := x\<rparr>) =
     (case toJSON R option_toJSON this of
        (Inl e, s) \<Rightarrow> (Inl e, this\<lparr>nsfw := x\<rparr>)
      | (Inr doc, s) \<Rightarrow> (Inr (doc\<lparr>nsfw := x\<rparr>), this\<lparr>nsfw := x\<rparr>))"
  by (simp add: toJSON_def method_defs split: sum.splits)

text \<open>
  C8. \<^verbatim>\<open>toJSON()\<close> leaves the descriptor as it found it, and a second call right after the
  first gives the same outcome, so two documents in a row are equal. When a setter
  succeeds between two calls, the second call succeeds as the first did and its document
  is the first one with the setter's field replaced by the stored value; every other
  field of the document is the same.
\<close>

theorem toJSON_repeatable:
  "snd (toJSON R option_toJSON this) = this \<and>
   toJSON R option_toJSON (snd (toJSON R option_toJSON this)) = toJSON R option_toJSON this \<and>
   (toJSON R option_toJSON this = (Inr doc, this) \<longrightarrow>
      (setContexts R xs this = (Inr (), this') \<longrightarrow>
         toJSON R option_toJSON this' = (Inr (doc\<lparr>contexts := contexts this'\<rparr>), this')) \<and>
      (setIntegrationTypes R xs this = (Inr (), this') \<longrightarrow>
         toJSON R option_toJSON this' =
           (Inr (doc\<lparr>integration_types := integration_types this'\<rparr>), this')) \<and>
      (setDefaultPermission R v this = (Inr (), this') \<longrightarrow>
         toJSON R option_toJSON this' =
           (Inr (doc\<lparr>default_permission := default_permission this'\<rparr>), this')) \<and>
      (setDefaultMemberPermissions R v this = (Inr (), this') \<longrightarrow>
         toJSON R option_toJSON this' =
           (Inr (doc\<lparr>default_member_permissions := default_member_permissions this'\<rparr>), this')) \<and>
      (setDMPermission R v this = (Inr (), this') \<longrightarrow>
         toJSON R option_toJSON this' = (Inr (doc\<lparr>dm_permission := dm_permission this'\<rparr>), this')) \<and>
      (setNSFW R arg this = (Inr (), this') \<longrightarrow>
         toJSON R option_toJSON this' = (Inr (doc\<lparr>nsfw := nsfw this'\<rparr>), this')))"
proof (intro conjI impI)
  show same: "snd (toJSON R option_toJSON this) = this"
    by (rule toJSON_state)
  show "toJSON R option_toJSON (snd (toJSON R option_toJSON this)) = toJSON R option_toJSON this"
    by (simp add: same)
next
  assume first: "toJSON R option_toJSON this = (Inr doc, this)"
    and set: "setContexts R xs this = (Inr (), this')"
  from set obtain x where "this' = this\<lparr>contexts := x\<rparr>"
    by (auto simp: setContexts_outcome split: sum.splits)
  then show "toJSON R option_toJSON this' = (Inr (doc\<lparr>contexts := contexts this'\<rparr>), this')"
    by (simp add: toJSON_after_contexts first)
next
  assume first: "toJSON R option_toJSON this = (Inr doc, this)"
    and set: "setIntegrationTypes R xs this = (Inr (), this')"
  from set obtain x where "this' = this\<lparr>integration_types := x\<rparr>"
    by (auto simp: setIntegrationTypes_outcome split: sum.splits)
  then show "toJSON R option_toJSON this' =
      (Inr (doc\<lparr>integration_types := integration_types this'\<rparr>), this')"
    by (simp add: toJSON_after_integration_types first)
next
  assume first: "toJSON R option_toJSON this = (Inr doc, this)"
    and set: "setDefaultPermission R v this = (Inr (), this')"
  from set have "this' = this\<lparr>default_permission := v\<rparr>"
    by (auto simp: setDefaultPermission_outcome split: sum.splits)
  then show "toJSON R option_toJSON this' =
      (Inr (doc\<lparr>default_permission := default_permission this'\<rparr>), this')"
    by (simp add: toJSON_after_default_permission first)
next
  assume first: "toJSON R option_toJSON this = (Inr doc, this)"
    and set: "setDefaultMemberPermissions R v this = (Inr (), this')"
  from set obtain x where "this' = this\<lparr>default_member_permissions := x\<rparr>"
    by (auto simp: setDefaultMemberPermissions_outcome split: sum.splits)
  then show "toJSON R option_toJSON this' =
      (Inr (doc\<lparr>default_member_permissions := default_member_permissions this'\<rparr>), this')"
    by (simp add: toJSON_after_default_member_permissions first)
next
  assume first: "toJSON R option_toJSON this = (Inr doc, this)"
    and set: "setDMPermission R v this = (Inr (), this')"
  from set have "this' = this\<lparr>dm_permission := v\<rparr>"
    by (auto simp: setDMPermission_outcome split: sum.splits)
  then show "toJSON R option_toJSON this' = (Inr (doc\<lparr>dm_permission := dm_permission this'\<rparr>), this')"
    by (simp add: toJSON_after_dm_permission first)
next
  assume first: "toJSON R option_toJSON this = (Inr doc, this)"
    and set: "setNSFW R arg this = (Inr (), this')"
  from set obtain x where "this' = this\<lparr>nsfw := x\<rparr>"
    by (auto simp: setNSFW_outcome split: sum.splits)
  then show "toJSON R option_toJSON this' = (Inr (doc\<lparr>nsfw := nsfw this'\<rparr>), this')"
    by (simp add: toJSON_after_nsfw first)
qed

theorem toJSON_repeatable_witness:
  "toJSON exampleRules example_option_toJSON ping_xyz = (Inr ping_xyz_document, ping_xyz) \<and>
   toJSON exampleRules example_option_toJSON
     (snd (toJSON exampleRules example_option_toJSON ping_xyz)) =
     (Inr ping_xyz_document, ping_xyz) \<and>
   setNSFW exampleRules None ping_xyz = (Inr (), ping_xyz\<lparr>nsfw := JBoolean True\<rparr>) \<and>
   toJSON exampleRules example_option_toJSON (ping_xyz\<lparr>nsfw := JBoolean True\<rparr>) =
     (Inr (ping_xyz_document\<lparr>nsfw := JBoolean True\<rparr>), ping_xyz\<lparr>nsfw := JBoolean True\<rparr>) \<and>
   setContexts exampleRules [JNumber 0] ping_xyz =
     (Inr (), ping_xyz\<lparr>contexts := JArray [JNumber 0]\<rparr>) \<and>
   toJSON exampleRules example_option_toJSON (ping_xyz\<lparr>contexts := JArray [JNumber 0]\<rparr>) =
     (Inr (ping_xyz_document\<lparr>contexts := JArray [JNumber 0]\<rparr>),
      ping_xyz\<lparr>contexts := JArray [JNumber 0]\<rparr>)"
proof -
  have first: "toJSON exampleRules example_option_toJSON ping_xyz =
      (Inr ping_xyz_document, ping_xyz)"
    by (simp add: toJSON_def method_defs spec_defs example_defs ping_xyz_def
        ping_xyz_document_def)
  have nsfw: "setNSFW exampleRules None ping_xyz = (Inr (), ping_xyz\<lparr>nsfw := JBoolean True\<rparr>)"
    by (simp add: setNSFW_outcome defaultParam_def spec_defs exampleRules_def)
  have ctx: "setContexts exampleRules [JNumber 0] ping_xyz =
      (Inr (), ping_xyz\<lparr>contexts := JArray [JNumber 0]\<rparr>)"
    by (simp add: setContexts_outcome spec_defs exampleRules_def exampleSchema_def)
  show ?thesis
    using first nsfw ctx
      toJSON_repeatable [where R = exampleRules and option_toJSON = example_option_toJSON
        and this = ping_xyz and doc = ping_xyz_document and arg = None
        and this' = "ping_xyz\<lparr>nsfw := JBoolean True\<rparr>" and xs = "[]" and v = JNull]
      toJSON_repeatable [where R = exampleRules and option_toJSON = example_option_toJSON
        and this = ping_xyz and doc = ping_xyz_document and arg = None
        and this' = "ping_xyz\<lparr>contexts := JArray [JNumber 0]\<rparr>" and xs = "[JNumber 0]"
        and v = JNull]
    by simp
qed

text \<open>
  C9. The deprecated fields stay settable and only their values are validated:
  \<^verbatim>\<open>setDefaultPermission\<close> and \<^verbatim>\<open>setDMPermission\<close> throw the error of their rule when it
  rejects the value and store the value when it accepts it. No operation checks the
  deprecated fields against the newer ones: the outcome of each of the six setters is
  the same whatever \<^verbatim>\<open>default_permission\<close>, \<^verbatim>\<open>dm_permission\<close>,
  \<^verbatim>\<open>default_member_permissions\<close> and \<^verbatim>\<open>contexts\<close> hold, and so is the success of
  \<^verbatim>\<open>toJSON()\<close> and the error it fails with. Nothing is migrated or reconciled: a setter
  leaves each of the four fields that is not its own as it was, and a \<^verbatim>\<open>toJSON()\<close> that
  succeeds leaves the descriptor as it was and puts the four fields into the document as
  they are stored, unset when unset.
\<close>

theorem deprecated_fields_pass_through:
  "(validateDefaultPermission R v = Inl e \<longrightarrow> setDefaultPermission R v this = (Inl e, this)) \<and>
   (validateDefaultPermission R v = Inr () \<longrightarrow>
      setDefaultPermission R v this = (Inr (), this\<lparr>default_permission := v\<rparr>)) \<and>
   (validateDMPermission R v = Inl e \<longrightarrow> setDMPermission R v this = (Inl e, this)) \<and>
   (validateDMPermission R v = Inr () \<longrightarrow>
      setDMPermission R v this = (Inr (), this\<lparr>dm_permission := v\<rparr>)) \<and>
   fst (setContexts R xs
          (this\<lparr>default_permission := a, dm_permission := b,
                default_member_permissions := m, contexts := c\<rparr>)) =
     fst (setContexts R xs this) \<and>
   fst (setIntegrationTypes R xs
          (this\<lparr>default_permission := a, dm_permission := b,
                default_member_permissions := m, contexts := c\<rparr>)) =
     fst (setIntegrationTypes R xs this) \<and>
   fst (setDefaultPermission R v
          (this\<lparr>default_permission := a, dm_permission := b,
                default_member_permissions := m, contexts := c\<rparr>)) =
     fst (setDefaultPermission R v this) \<and>
   fst (setDefaultMemberPermissions R v
          (this\<lparr>default_permission := a, dm_permission := b,
                default_member_permissions := m, contexts := c\<rparr>)) =
     fst (setDefaultMemberPermissions R v this) \<and>
   fst (setDMPermission R v
          (this\<lparr>default_permission := a, dm_permission := b,
                default_member_permissions := m, contexts := c\<rparr>)) =
     fst (setDMPermission R v this) \<and>
   fst (setNSFW R arg
          (this\<lparr>default_permission := a, dm_permission := b,
                default_member_permissions := m, contexts := c\<rparr>)) =
     fst (setNSFW R arg this) \<and>
   default_permission (snd (setContexts R xs this)) = default_permission this \<and>
   dm_permission (snd (setContexts R xs this)) = dm_permission this \<and>
   default_member_permissions (snd (setContexts R xs this)) = default_member_permissions this \<and>
   default_permission (snd (setIntegrationTypes R xs this)) = default_permission this \<and>
   dm_permission (snd (setIntegrationTypes R xs this)) = dm_permission this \<and>
   default_member_permissions (snd (setIntegrationTypes R xs this)) = default_member_permissions this \<and>
   contexts (snd (setIntegrationTypes R xs this)) = contexts this \<and>
   dm_permission (snd (setDefaultPermission R v this)) = dm_permission this \<and>
   default_member_permissions (snd (setDefaultPermission R v this)) = default_member_permissions this \<and>
   contexts (snd (setDefaultPermission R v this)) = contexts this \<and>
   default_permission (snd (setDefaultMemberPermissions R v this)) = default_permission this \<and>
   dm_permission (snd (setDefaultMemberPermissions R v this)) = dm_permission this \<and>
   contexts (snd (setDefaultMemberPermissions R v this)) = contexts this \<and>
   default_permission (snd (setDMPermission R v this)) = default_permission this \<and>
   default_member_permissions (snd (setDMPermission R v this)) = default_member_permissions this \<and>
   contexts (snd (setDMPermission R v this)) = contexts this \<and>
   default_permission (snd (setNSFW R arg this)) = default_permission this \<and>
   dm_permission (snd (setNSFW R arg this)) = dm_permission this \<and>
   default_member_permissions (snd (setNSFW R arg this)) = default_member_permissions this \<and>
   contexts (snd (setNSFW R arg this)) = contexts this \<and>
   (fst (toJSON R option_toJSON
           (this\<lparr>default_permission := a, dm_permission := b,
                 default_member_permissions := m, contexts := c\<rparr>)) = Inl e
      \<longleftrightarrow> fst (toJSON R option_toJSON this) = Inl e) \<and>
   (toJSON R option_toJSON this = (Inr doc, this') \<longrightarrow>
      this' = this \<and>
      default_permission doc = default_permission this \<and>
      dm_permission doc = dm_permission this \<and>
      default_member_permissions doc = default_member_permissions this \<and>
      contexts doc = contexts this \<and>
      (default_permission this = JUndefined \<longrightarrow> default_permission doc = JUndefined) \<and>
      (dm_permission this = JUndefined \<longrightarrow> dm_permission doc = JUndefined))"
proof (intro conjI impI)
  assume "validateDefaultPermission R v = Inl e"
  then show "setDefaultPermission R v this = (Inl e, this)"
    by (simp add: setDefaultPermission_outcome)
next
  assume "validateDefaultPermission R v = Inr ()"
  then show "setDefaultPermission R v this = (Inr (), this\<lparr>default_permission := v\<rparr>)"
    by (simp add: setDefaultPermission_outcome)
next
  assume "validateDMPermission R v = Inl e"
  then show "setDMPermission R v this = (Inl e, this)"
    by (simp add: setDMPermission_outcome)
next
  assume "validateDMPermission R v = Inr ()"
  then show "setDMPermission R v this = (Inr (), this\<lparr>dm_permission := v\<rparr>)"
    by (simp add: setDMPermission_outcome)
next
  show "fst (setContexts R xs
          (this\<lparr>default_permission := a, dm_permission := b,
                default_member_permissions := m, contexts := c\<rparr>)) =
     fst (setContexts R xs this)"
    by (simp add: setContexts_outcome split: sum.splits)
  show "fst (setIntegrationTypes R xs
          (this\<lparr>default_permission := a, dm_permission := b,
                default_member_permissions := m, contexts := c\<rparr>)) =
     fst (setIntegrationTypes R xs this)"
    by (simp add: setIntegrationTypes_outcome split: sum.splits)
  show "fst (setDefaultPermission R v
          (this\<lparr>default_permission := a, dm_permission := b,
                default_member_permissions := m, contexts := c\<rparr>)) =
     fst (setDefaultPermission R v this)"
    by (simp add: setDefaultPermission_outcome split: sum.splits)
  show "fst (setDefaultMemberPermissions R v
          (this\<lparr>default_permission := a, dm_permission := b,
                default_member_permissions := m, contexts := c\<rparr>)) =
     fst (setDefaultMemberPermissions R v this)"
    by (simp add: setDefaultMemberPermissions_outcome split: sum.splits)
  show "fst (setDMPermission R v
          (this\<lparr>default_permission := a, dm_permission := b,
                default_member_permissions := m, contexts := c\<rparr>)) =
     fst (setDMPermission R v this)"
    by (simp add: setDMPermission_outcome split: sum.splits)
  show "fst (setNSFW R arg
          (this\<lparr>default_permission := a, dm_permission := b,
                default_member_permissions := m, contexts := c\<rparr>)) =
     fst (setNSFW R arg this)"
    by (simp add: setNSFW_outcome split: sum.splits)
  show "default_permission (snd (setContexts R xs this)) = default_permission this"
    by (simp add: setContexts_outcome split: sum.splits)
  show "dm_permission (snd (setContexts R xs this)) = dm_permission this"
    by (simp add: setContexts_outcome split: sum.splits)
  show "default_member_permissions (snd (setContexts R xs this)) = default_member_permissions this"
    by (simp add: setContexts_outcome split: sum.splits)
  show "default_permission (snd (setIntegrationTypes R xs this)) = default_permission this"
    by (simp add: setIntegrationTypes_outcome split: sum.splits)
  show "dm_permission (snd (setIntegrationTypes R xs this)) = dm_permission this"
    by (simp add: setIntegrationTypes_outcome split: sum.splits)
  show "default_member_permissions (snd (setIntegrationTypes R xs this)) = default_member_permissions this"
    by (simp add: setIntegrationTypes_outcome split: sum.splits)
  show "contexts (snd (setIntegrationTypes R xs this)) = contexts this"
    by (simp add: setIntegrationTypes_outcome split: sum.splits)
  show "dm_permission (snd (setDefaultPermission R v this)) = dm_permission this"
    by (simp add: setDefaultPermission_outcome split: sum.splits)
  show "default_member_permissions (snd (setDefaultPermission R v this)) = default_member_permissions this"
    by (simp add: setDefaultPermission_outcome split: sum.splits)
  show "contexts (snd (setDefaultPermission R v this)) = contexts this"
    by (simp add: setDefaultPermission_outcome split: sum.splits)
  show "default_permission (snd (setDefaultMemberPermissions R v this)) = default_permission this"
    by (simp add: setDefaultMemberPermissions_outcome split: sum.splits)
  show "dm_permission (snd (setDefaultMemberPermissions R v this)) = dm_permission this"
    by (simp add: setDefaultMemberPermissions_outcome split: sum.splits)
  show "contexts (snd (setDefaultMemberPermissions R v this)) = contexts this"
    by (simp add: setDefaultMemberPermissions_outcome split: sum.splits)
  show "default_permission (snd (setDMPermission R v this)) = default_permission this"
    by (simp add: setDMPermission_outcome split: sum.splits)
  show "default_member_permissions (snd (setDMPermission R v this)) = default_member_permissions this"
    by (simp add: setDMPermission_outcome split: sum.splits)
  show "contexts (snd (setDMPermission R v this)) = contexts this"
    by (simp add: setDMPermission_outcome split: sum.splits)
  show "default_permission (snd (setNSFW R arg this)) = default_permission this"
    by (simp add: setNSFW_outcome split: sum.splits)
  show "dm_permission (snd (setNSFW R arg this)) = dm_permission this"
    by (simp add: setNSFW_outcome split: sum.splits)
  show "default_member_permissions (snd (setNSFW R arg this)) = default_member_permissions this"
    by (simp add: setNSFW_outcome split: sum.splits)
  show "contexts (snd (setNSFW R arg this)) = contexts this"
    by (simp add: setNSFW_outcome split: sum.splits)
  show "fst (toJSON R option_toJSON
           (this\<lparr>default_permission := a, dm_permission := b,
                 default_member_permissions := m, contexts := c\<rparr>)) = Inl e
      \<longleftrightarrow> fst (toJSON R option_toJSON this) = Inl e"
    by (simp add: toJSON_def method_defs split: sum.splits)
next
  assume ok: "toJSON R option_toJSON this = (Inr doc, this')"
  show "this' = this"
    using toJSON_Inr(1) [OF ok] .
  show dp: "default_permission doc = default_permission this"
    using toJSON_Inr(5) [OF ok] by auto
  show dm: "dm_permission doc = dm_permission this"
    using toJSON_Inr(5) [OF ok] by auto
  show "default_member_permissions doc = default_member_permissions this"
    using toJSON_Inr(5) [OF ok] by auto
  show "contexts doc = contexts this"
    using toJSON_Inr(5) [OF ok] by auto
  show "default_permission doc = JUndefined" if "default_permission this = JUndefined"
    using dp that by simp
  show "dm_permission doc = JUndefined" if "dm_permission this = JUndefined"
    using dm that by simp
qed

theorem deprecated_fields_pass_through_witness:
  "setDMPermission exampleRules (JNumber 1) ping =
     (Inl (ValidationError ''dm_permission'' (JNumber 1)), ping) \<and>
   setDefaultPermission exampleRules JNull ping =
     (Inl (ValidationError ''default_permission'' JNull), ping) \<and>
   setDMPermission exampleRules (JBoolean False)
     (ping\<lparr>default_member_permissions := JBigInt 8, contexts := JArray [JNumber 0]\<rparr>) =
     (Inr (), ping_legacy) \<and>
   setDefaultPermission exampleRules (JBoolean True)
     (ping\<lparr>default_member_permissions := JBigInt 8, contexts := JArray [JNumber 0]\<rparr>) =
     (Inr (), ping\<lparr>default_member_permissions := JBigInt 8, contexts := JArray [JNumber 0],
                   default_permission := JBoolean True\<rparr>) \<and>
   setContexts exampleRules [JNumber 1] ping_legacy =
     (Inr (), ping_legacy\<lparr>contexts := JArray [JNumber 1]\<rparr>) \<and>
   toJSON exampleRules example_option_toJSON ping_legacy = (Inr ping_legacy_document, ping_legacy) \<and>
   dm_permission ping_legacy_document = JBoolean False \<and>
   default_permission ping_legacy = JUndefined \<and>
   default_permission ping_legacy_document = JUndefined \<and>
   default_member_permissions ping_legacy_document = JBigInt 8 \<and>
   contexts ping_legacy_document = JArray [JNumber 0]"
proof -
  have dm_bad: "validateDMPermission exampleRules (JNumber 1) =
      Inl (ValidationError ''dm_permission'' (JNumber 1))"
    by (simp add: spec_defs example_defs)
  have dp_bad: "validateDefaultPermission exampleRules JNull =
      Inl (ValidationError ''default_permission'' JNull)"
    by (simp add: spec_defs example_defs)
  have dm: "validateDMPermission exampleRules (JBoolean False) = Inr ()"
    by (simp add: spec_defs example_defs)
  have dp: "validateDefaultPermission exampleRules (JBoolean True) = Inr ()"
    by (simp add: spec_defs example_defs)
  have ctx: "setContexts exampleRules [JNumber 1] ping_legacy =
      (Inr (), ping_legacy\<lparr>contexts := JArray [JNumber 1]\<rparr>)"
    by (simp add: setContexts_outcome spec_defs exampleRules_def exampleSchema_def)
  have run: "toJSON exampleRules example_option_toJSON ping_legacy =
      (Inr ping_legacy_document, ping_legacy)"
    by (simp add: toJSON_def method_defs spec_defs example_defs ping_legacy_def
        ping_legacy_document_def)
  have unset: "default_permission ping_legacy = JUndefined"
    by (simp add: ping_legacy_def ping_def new_SharedSlashCommand_def)
  show ?thesis
    using dm_bad dp_bad dm dp ctx run unset
      deprecated_fields_pass_through [where R = exampleRules and this = ping
        and v = "JNumber 1" and e = "ValidationError ''dm_permission'' (JNumber 1)"
        and xs = "[]" and arg = None and option_toJSON = example_option_toJSON
        and a = JUndefined and b = JUndefined and m = JUndefined and c = JUndefined
        and this' = ping and doc = ping_legacy_document]
      deprecated_fields_pass_through [where R = exampleRules and this = ping
        and v = JNull and e = "ValidationError ''default_permission'' JNull"
        and xs = "[]" and arg = None and option_toJSON = example_option_toJSON
        and a = JUndefined and b = JUndefined and m = JUndefined and c = JUndefined
        and this' = ping and doc = ping_legacy_document]
      deprecated_fields_pass_through [where R = exampleRules
        and this = "ping\<lparr>default_member_permissions := JBigInt 8, contexts := JArray [JNumber 0]\<rparr>"
        and v = "JBoolean False" and e = ShapeError
        and xs = "[]" and arg = None and option_toJSON = example_option_toJSON
        and a = JUndefined and b = JUndefined and m = JUndefined and c = JUndefined
        and this' = ping and doc = ping_legacy_document]
      deprecated_fields_pass_through [where R = exampleRules
        and this = "ping\<lparr>default_member_permissions := JBigInt 8, contexts := JArray [JNumber 0]\<rparr>"
        and v = "JBoolean True" and e = ShapeError
        and xs = "[]" and arg = None and option_toJSON = example_option_toJSON
        and a = JUndefined and b = JUndefined and m = JUndefined and c = JUndefined
        and this' = ping and doc = ping_legacy_document]
      deprecated_fields_pass_through [where R = exampleRules and this = ping_legacy
        and v = JNull and e = ShapeError
        and xs = "[JNumber 1]" and arg = None and option_toJSON = example_option_toJSON
        and a = JUndefined and b = JUndefined and m = JUndefined and c = JUndefined
        and this' = ping_legacy and doc = ping_legacy_document]
    by (simp add: ping_legacy_def ping_legacy_document_def)
qed

end
